theory Spec2Isabelle
  imports Main "HOL-Library.Word"
begin

section \<open>ACPI S-state transitions on x86: \<open>kernel/syscalls/syscalls_system_x86.cpp\<close>\<close>

text \<open>
  The file holds two functions: \<open>suspend_thread\<close>, the body of the thread that performs
  one resumable suspend attempt, and \<open>arch_system_powerctl\<close>, the entry point. Everything
  else they call (the bootstrap allocator, ACPICA, the interrupt and thread primitives,
  the platform hooks) lives outside the file. The embedding keeps the two functions as
  they are written and takes the collaborators as parameters: a record \<open>env\<close> fixes what
  each collaborator answers, and a record \<open>machine\<close> holds the little state the two
  functions can observe, together with the trace of the collaborator calls made so far.
\<close>

subsection \<open>Statuses, requests and calls\<close>

text \<open>
  \<open>zx_status_t\<close>: the statuses the file names, and \<open>ZX_ERR_OTHER\<close> for any other code a
  collaborator may hand back.
\<close>

datatype zx_status =
    ZX_OK
  | ZX_ERR_INTERNAL
  | ZX_ERR_NOT_SUPPORTED
  | ZX_ERR_NO_MEMORY
  | ZX_ERR_INVALID_ARGS
  | ZX_ERR_BAD_STATE
  | ZX_ERR_OTHER int

text \<open>\<open>ACPI_STATUS\<close>: the file only compares it with \<open>AE_OK\<close>.\<close>

datatype acpi_status = AE_OK | AE_FAILURE "32 word"

type_synonym paddr_t = "64 word"
type_synonym cpu_mask_t = "32 word"

text \<open>The member \<open>acpi_transition_s_state\<close> of \<open>zx_system_powerctl_arg_t\<close>: three \<open>uint8_t\<close>.\<close>

record zx_system_powerctl_arg_t =
  target_s_state :: "8 word"
  sleep_type_a :: "8 word"
  sleep_type_b :: "8 word"

text \<open>
  The first argument of \<open>x86_acpi_transition_s_state\<close>: a pointer to a register-capture
  structure. Both call sites pass \<open>&regs\<close>, the address of a local variable.
\<close>

datatype regs_ptr = Regs_null | Regs_local

text \<open>The deadline of \<open>thread_join\<close>.\<close>

datatype zx_time = ZX_TIME_INFINITE | ZX_TIME int

text \<open>
  One constructor for each collaborator the two functions call, with the arguments that
  matter. \<open>Acpi_set_waking_vector a\<close> is \<open>AcpiHwSetFirmwareWakingVector(facs, a, 0)\<close>:
  arming passes the bootstrap entry address, clearing passes 0.
  \<open>Arch_ints_disabled b\<close> records the answer \<open>b\<close> of the query.
\<close>

datatype call =
    X86_bootstrap16_acquire
  | X86_bootstrap16_release
  | Acpi_get_table
  | Acpi_set_waking_vector paddr_t
  | Arch_disable_ints
  | Arch_enable_ints
  | Arch_ints_disabled bool
  | Platform_suspend
  | Arch_suspend
  | X86_acpi_transition_s_state regs_ptr "8 word" "8 word" "8 word"
  | Arch_resume
  | Platform_resume
  | Timer_thaw_percpu
  | Mp_get_online_mask
  | Thread_create
  | Thread_resume
  | Thread_join zx_time

subsection \<open>The collaborators as parameters\<close>

text \<open>
  What the code outside the file answers. \<open>ints_after c b\<close> is the interrupt-enable flag
  after the collaborator call \<open>c\<close> when it was \<open>b\<close> before: the file cannot see whether a
  platform hook or the firmware round trip touches the flag, it can only assert it.
  \<open>powerctl_acpi_transition_s_state\<close> is the value of the constant
  \<open>ZX_SYSTEM_POWERCTL_ACPI_TRANSITION_S_STATE\<close>, defined in a header.
\<close>

record env =
  powerctl_acpi_transition_s_state :: "32 word"
  online_mask :: cpu_mask_t
  thread_create_ok :: bool
  thread_resume_status :: zx_status
  thread_join_status :: zx_status
  bootstrap16_acquire_status :: zx_status
  bootstrap_ip :: paddr_t
  get_table_status :: acpi_status
  set_waking_vector_status :: "paddr_t \<Rightarrow> acpi_status"
  transition_s_state_status :: "8 word \<Rightarrow> 8 word \<Rightarrow> 8 word \<Rightarrow> acpi_status"
  ints_after :: "call \<Rightarrow> bool \<Rightarrow> bool"

text \<open>
  The state the two functions act on: the interrupt-enable flag of the processor, the
  firmware waking vector of the FACS table (0 when cleared), whether the bootstrap
  resource is held, the field \<open>registers_ptr\<close> of the bootstrap data, and the trace of
  collaborator calls, oldest first.
\<close>

record machine =
  ints_enabled :: bool
  waking_vector :: paddr_t
  bootstrap_held :: bool
  registers_ptr :: regs_ptr
  trace :: "call list"

text \<open>
  Modelled from the spec: \<open>ASSERT\<close> and \<open>DEBUG_ASSERT\<close> are macros of a kernel header
  that is not among the sources. Both are taken as checked, as in a build that has
  debug assertions: the restore phase "asserts interrupts are still disabled at entry".
  A function either returns a status or stops the kernel on a failed assertion; then no
  guard runs and nothing is returned.
\<close>

datatype outcome = Returned zx_status machine | Panicked machine

text \<open>A call of a collaborator: it is appended to the trace and may change the flag.\<close>

definition collaborator :: "env \<Rightarrow> call \<Rightarrow> machine \<Rightarrow> machine" where
  "collaborator env c s =
     s\<lparr>ints_enabled := ints_after env c (ints_enabled s), trace := trace s @ [c]\<rparr>"

text \<open>
  Modelled from the spec: \<open>arch_disable_ints\<close>, \<open>arch_enable_ints\<close> and
  \<open>arch_ints_disabled\<close> are declared in \<open>arch/arch_ops.h\<close>, which is not among the sources.
  They mask interrupts, unmask them, and tell whether they are masked.
\<close>

definition arch_disable_ints :: "machine \<Rightarrow> machine" where
  "arch_disable_ints s = s\<lparr>ints_enabled := False, trace := trace s @ [Arch_disable_ints]\<rparr>"

definition arch_enable_ints :: "machine \<Rightarrow> machine" where
  "arch_enable_ints s = s\<lparr>ints_enabled := True, trace := trace s @ [Arch_enable_ints]\<rparr>"

definition arch_ints_disabled :: "machine \<Rightarrow> bool \<times> machine" where
  "arch_ints_disabled s =
     (\<not> ints_enabled s, s\<lparr>trace := trace s @ [Arch_ints_disabled (\<not> ints_enabled s)]\<rparr>)"

text \<open>
  Modelled from the spec: \<open>x86_bootstrap16_acquire\<close> and \<open>x86_bootstrap16_release\<close> are
  declared in \<open>arch/x86/bootstrap16.h\<close>, which is not among the sources. Acquire answers a
  status and, on success, hands out the bootstrap resource with its entry address;
  release gives the resource back.
\<close>

definition x86_bootstrap16_acquire :: "env \<Rightarrow> machine \<Rightarrow> zx_status \<times> paddr_t \<times> machine" where
  "x86_bootstrap16_acquire env s =
     (let s' = collaborator env X86_bootstrap16_acquire s in
      if bootstrap16_acquire_status env = ZX_OK
      then (ZX_OK, bootstrap_ip env, s'\<lparr>bootstrap_held := True\<rparr>)
      else (bootstrap16_acquire_status env, bootstrap_ip env, s'))"

definition x86_bootstrap16_release :: "env \<Rightarrow> machine \<Rightarrow> machine" where
  "x86_bootstrap16_release env s =
     (collaborator env X86_bootstrap16_release s)\<lparr>bootstrap_held := False\<rparr>"

text \<open>
  Modelled from the spec: \<open>AcpiGetTable\<close> and \<open>AcpiHwSetFirmwareWakingVector\<close> belong to
  ACPICA, which is not among the sources. The lookup answers a status. Setting the
  waking vector answers a status and, when that is \<open>AE_OK\<close>, writes the address into the
  table; a call that fails leaves the table as it was.
\<close>

definition AcpiGetTable :: "env \<Rightarrow> machine \<Rightarrow> acpi_status \<times> machine" where
  "AcpiGetTable env s = (get_table_status env, collaborator env Acpi_get_table s)"

definition AcpiHwSetFirmwareWakingVector ::
  "env \<Rightarrow> paddr_t \<Rightarrow> machine \<Rightarrow> acpi_status \<times> machine" where
  "AcpiHwSetFirmwareWakingVector env a s =
     (let s' = collaborator env (Acpi_set_waking_vector a) s in
      if set_waking_vector_status env a = AE_OK
      then (AE_OK, s'\<lparr>waking_vector := a\<rparr>)
      else (set_waking_vector_status env a, s'))"

text \<open>
  Modelled from the spec: the platform, architecture and timer hooks and
  \<open>x86_acpi_transition_s_state\<close> are "opaque save/resume/transition primitives", not
  among the sources. To this file a hook is a call and nothing else; the transition
  also answers a firmware status, for a rejection as for a resume.
\<close>

definition platform_suspend :: "env \<Rightarrow> machine \<Rightarrow> machine" where
  "platform_suspend env s = collaborator env Platform_suspend s"

definition arch_suspend :: "env \<Rightarrow> machine \<Rightarrow> machine" where
  "arch_suspend env s = collaborator env Arch_suspend s"

definition arch_resume :: "env \<Rightarrow> machine \<Rightarrow> machine" where
  "arch_resume env s = collaborator env Arch_resume s"

definition platform_resume :: "env \<Rightarrow> machine \<Rightarrow> machine" where
  "platform_resume env s = collaborator env Platform_resume s"

definition timer_thaw_percpu :: "env \<Rightarrow> machine \<Rightarrow> machine" where
  "timer_thaw_percpu env s = collaborator env Timer_thaw_percpu s"

definition x86_acpi_transition_s_state ::
  "env \<Rightarrow> regs_ptr \<Rightarrow> 8 word \<Rightarrow> 8 word \<Rightarrow> 8 word \<Rightarrow> machine \<Rightarrow> acpi_status \<times> machine" where
  "x86_acpi_transition_s_state env regs t a b s =
     (transition_s_state_status env t a b,
      collaborator env (X86_acpi_transition_s_state regs t a b) s)"

subsection \<open>\<open>suspend_thread\<close>\<close>

text \<open>
  The two \<open>fbl::MakeAutoCall\<close> guards. A guard runs when the function returns, the one
  made last first; it exists only from the line that makes it.
\<close>

definition bootstrap_cleanup :: "env \<Rightarrow> machine \<Rightarrow> machine" where
  "bootstrap_cleanup env s = x86_bootstrap16_release env s"

definition wake_vector_cleanup :: "env \<Rightarrow> machine \<Rightarrow> machine" where
  "wake_vector_cleanup env s = snd (AcpiHwSetFirmwareWakingVector env 0 s)"

definition suspend_thread :: "env \<Rightarrow> zx_system_powerctl_arg_t \<Rightarrow> machine \<Rightarrow> outcome" where
  "suspend_thread env arg s0 =
    (case x86_bootstrap16_acquire env s0 of (status, ip, s1) \<Rightarrow>
      if status \<noteq> ZX_OK then Returned status s1
      else case AcpiGetTable env s1 of (acpi_status, s2) \<Rightarrow>
        if acpi_status \<noteq> AE_OK then Returned ZX_ERR_BAD_STATE (bootstrap_cleanup env s2)
        else case AcpiHwSetFirmwareWakingVector env ip s2 of (acpi_status, s3) \<Rightarrow>
          if acpi_status \<noteq> AE_OK then Returned ZX_ERR_BAD_STATE (bootstrap_cleanup env s3)
          else
            let s4 = arch_suspend env (platform_suspend env
                       (arch_disable_ints (s3\<lparr>registers_ptr := Regs_local\<rparr>)))
            in case x86_acpi_transition_s_state env Regs_local
                      (target_s_state arg) (sleep_type_a arg) (sleep_type_b arg) s4 of
              (acpi_status, s5) \<Rightarrow>
                if acpi_status \<noteq> AE_OK
                then Returned ZX_ERR_INTERNAL
                       (bootstrap_cleanup env (wake_vector_cleanup env (arch_enable_ints s5)))
                else case arch_ints_disabled s5 of (disabled, s6) \<Rightarrow>
                  if \<not> disabled then Panicked s6
                  else case arch_ints_disabled
                              (timer_thaw_percpu env (platform_resume env (arch_resume env s6))) of
                    (disabled, s7) \<Rightarrow>
                      if \<not> disabled then Panicked s7
                      else Returned ZX_OK
                             (bootstrap_cleanup env (wake_vector_cleanup env (arch_enable_ints s7))))"

subsection \<open>\<open>arch_system_powerctl\<close>\<close>

text \<open>
  Modelled from the spec: \<open>mp_get_online_mask\<close> and \<open>cpu_num_to_mask\<close> are declared in
  kernel headers that are not among the sources. The first answers the set of
  processing units that are online, one bit each; the second is the mask of one unit
  (the comment at the call reads "ensure CPU 0 is the only cpu left running").
\<close>

definition mp_get_online_mask :: "env \<Rightarrow> machine \<Rightarrow> cpu_mask_t \<times> machine" where
  "mp_get_online_mask env s = (online_mask env, collaborator env Mp_get_online_mask s)"

definition cpu_num_to_mask :: "nat \<Rightarrow> cpu_mask_t" where
  "cpu_num_to_mask n = (if n < 32 then push_bit n 1 else 0)"

text \<open>
  Modelled from the spec: \<open>thread_create\<close>, \<open>thread_resume\<close> and \<open>thread_join\<close> are the
  kernel's thread primitives, not among the sources. Creation may fail (a null thread).
  The thread runs its body to the end; its calls stand in the trace between the call of
  \<open>thread_resume\<close> and the return of \<open>thread_join\<close>, which hands over the body's return
  code. A body that stops the kernel stops the caller too.
\<close>

definition thread_create :: "env \<Rightarrow> machine \<Rightarrow> bool \<times> machine" where
  "thread_create env s = (thread_create_ok env, collaborator env Thread_create s)"

definition thread_resume :: "env \<Rightarrow> machine \<Rightarrow> zx_status \<times> machine" where
  "thread_resume env s = (thread_resume_status env, collaborator env Thread_resume s)"

definition thread_join ::
  "env \<Rightarrow> zx_time \<Rightarrow> zx_status \<Rightarrow> machine \<Rightarrow> zx_status \<times> zx_status \<times> machine" where
  "thread_join env deadline retcode s =
     (thread_join_status env, retcode, collaborator env (Thread_join deadline) s)"

text \<open>
  The entry point. The \<open>&&\<close> of the check on the online units evaluates its right side
  only for a target state other than 5, so a shutdown does not call
  \<open>mp_get_online_mask\<close>. The body of the thread is \<open>suspend_thread\<close> on the same argument.
  \<open>DEBUG_ASSERT(target_s_state == 5)\<close> opens the branch of the shutdown.
\<close>

definition arch_system_powerctl ::
  "env \<Rightarrow> 32 word \<Rightarrow> zx_system_powerctl_arg_t \<Rightarrow> machine \<Rightarrow> outcome" where
  "arch_system_powerctl env cmd arg s0 =
    (if cmd \<noteq> powerctl_acpi_transition_s_state env then Returned ZX_ERR_NOT_SUPPORTED s0
     else if target_s_state arg = 0 \<or> target_s_state arg > 5
     then Returned ZX_ERR_INVALID_ARGS s0
     else
       let (too_many, s1) =
             (if target_s_state arg \<noteq> 5
              then (case mp_get_online_mask env s0 of (m, s) \<Rightarrow> (m \<noteq> cpu_num_to_mask 0, s))
              else (False, s0))
       in
       if too_many then Returned ZX_ERR_BAD_STATE s1
       else if target_s_state arg < 5 then
         (case thread_create env s1 of (t, s2) \<Rightarrow>
           if \<not> t then Returned ZX_ERR_NO_MEMORY s2
           else case thread_resume env s2 of (status, s3) \<Rightarrow>
             if status \<noteq> ZX_OK then Panicked s3
             else case suspend_thread env arg s3 of
               Panicked s4 \<Rightarrow> Panicked s4
             | Returned code s4 \<Rightarrow>
                 (case thread_join env ZX_TIME_INFINITE code s4 of (status, retcode, s5) \<Rightarrow>
                   if status \<noteq> ZX_OK then Panicked s5
                   else if retcode \<noteq> ZX_OK then Returned retcode s5
                   else Returned ZX_OK s5))
       else
         if target_s_state arg \<noteq> 5 then Panicked s1
         else
           let s2 = arch_disable_ints s1 in
           case x86_acpi_transition_s_state env Regs_local
                  (target_s_state arg) (sleep_type_a arg) (sleep_type_b arg) s2 of
             (acpi_status, s3) \<Rightarrow>
               let s4 = arch_enable_ints s3 in
               if acpi_status \<noteq> AE_OK then Returned ZX_ERR_INTERNAL s4
               else Returned ZX_OK s4)"

subsection \<open>Reading a trace\<close>

text \<open>The calls an operation added to the trace.\<close>

definition calls_since :: "machine \<Rightarrow> machine \<Rightarrow> call list" where
  "calls_since s s' = drop (length (trace s)) (trace s')"

text \<open>How many units a mask reports online.\<close>

definition online_count :: "cpu_mask_t \<Rightarrow> nat" where
  "online_count m = length (filter (bit m) [0..<32])"

text \<open>Arming calls carry an address other than 0, clearing calls carry 0.\<close>

fun is_set_vector :: "call \<Rightarrow> bool" where
  "is_set_vector (Acpi_set_waking_vector a) = (a \<noteq> 0)"
| "is_set_vector _ = False"

definition set_calls :: "call list \<Rightarrow> nat" where
  "set_calls cs = length (filter is_set_vector cs)"

definition clear_calls :: "call list \<Rightarrow> nat" where
  "clear_calls cs = count_list cs (Acpi_set_waking_vector 0)"



text \<open>The machine an operation leaves behind.\<close>

fun machine_of :: "outcome \<Rightarrow> machine" where
  "machine_of (Returned r s) = s"
| "machine_of (Panicked s) = s"

subsection \<open>Concrete collaborators and requests\<close>

text \<open>
  Collaborators that all succeed and leave the interrupt flag alone, with unit 0 the only
  unit online; and the variants in which one of them fails.
\<close>

definition env_ok :: env where
  "env_ok =
     \<lparr>powerctl_acpi_transition_s_state = 3, online_mask = 1, thread_create_ok = True,
      thread_resume_status = ZX_OK, thread_join_status = ZX_OK,
      bootstrap16_acquire_status = ZX_OK, bootstrap_ip = 0x8000,
      get_table_status = AE_OK,
      set_waking_vector_status = (\<lambda>a. AE_OK),
      transition_s_state_status = (\<lambda>t a b. AE_OK),
      ints_after = (\<lambda>c b. b)\<rparr>"

definition env_set_fails :: env where
  "env_set_fails =
     env_ok\<lparr>set_waking_vector_status := (\<lambda>a. if a = 0 then AE_OK else AE_FAILURE 1)\<rparr>"

definition env_rejects :: env where
  "env_rejects = env_ok\<lparr>transition_s_state_status := (\<lambda>t a b. AE_FAILURE 1)\<rparr>"



definition machine_start :: machine where
  "machine_start =
     \<lparr>ints_enabled = True, waking_vector = 0, bootstrap_held = False,
      registers_ptr = Regs_null, trace = []\<rparr>"

definition request :: "8 word \<Rightarrow> 8 word \<Rightarrow> 8 word \<Rightarrow> zx_system_powerctl_arg_t" where
  "request t a b = \<lparr>target_s_state = t, sleep_type_a = a, sleep_type_b = b\<rparr>"

text \<open>The machine after a successful attempt \<open>(state=3, a=1, b=2)\<close> from \<open>machine_start\<close>.\<close>

definition machine_resumed :: machine where
  "machine_resumed =
     \<lparr>ints_enabled = True, waking_vector = 0, bootstrap_held = False,
      registers_ptr = Regs_local,
      trace = [X86_bootstrap16_acquire, Acpi_get_table, Acpi_set_waking_vector 0x8000,
               Arch_disable_ints, Platform_suspend, Arch_suspend,
               X86_acpi_transition_s_state Regs_local 3 1 2,
               Arch_ints_disabled True, Arch_resume, Platform_resume, Timer_thaw_percpu,
               Arch_ints_disabled True, Arch_enable_ints, Acpi_set_waking_vector 0,
               X86_bootstrap16_release]\<rparr>"

section \<open>Properties\<close>

subsection \<open>Auxiliary facts\<close>

lemmas prim_defs = collaborator_def arch_disable_ints_def arch_enable_ints_def
  arch_ints_disabled_def x86_bootstrap16_acquire_def x86_bootstrap16_release_def
  AcpiGetTable_def AcpiHwSetFirmwareWakingVector_def platform_suspend_def arch_suspend_def
  arch_resume_def platform_resume_def timer_thaw_percpu_def x86_acpi_transition_s_state_def
  bootstrap_cleanup_def wake_vector_cleanup_def mp_get_online_mask_def thread_create_def
  thread_resume_def thread_join_def

lemmas run_defs = suspend_thread_def arch_system_powerctl_def prim_defs env_ok_def
  env_set_fails_def env_rejects_def machine_start_def machine_resumed_def request_def
  Let_def cpu_num_to_mask_def

lemma resumable_state:
  fixes t :: "8 word"
  assumes "1 \<le> t" and "t \<le> 4"
  shows "t \<noteq> 0 \<and> \<not> 5 < t \<and> t \<noteq> 5 \<and> t < 5"
  using assms by (auto simp: word_le_nat_alt word_less_nat_alt)

lemma cpu0_mask: "cpu_num_to_mask 0 = 1"
  by (simp add: cpu_num_to_mask_def)

lemma online_count_cpu0: "online_count 1 = 1"
  by (simp add: online_count_def bit_1_iff upt_rec)

lemma online_count_two: "online_count 2 = 1"
  by (simp add: online_count_def upt_rec bit_numeral_Bit0_iff)

lemma online_count_three: "online_count 3 = 2"
  by (simp add: online_count_def upt_rec)

lemma several_online_not_cpu0: "1 < online_count m \<Longrightarrow> m \<noteq> cpu_num_to_mask 0"
  using online_count_cpu0 by (auto simp: cpu0_mask)

lemma cpu0_offline_not_cpu0: "\<not> bit m 0 \<Longrightarrow> m \<noteq> cpu_num_to_mask 0"
  by (auto simp: cpu0_mask)

text \<open>The status of an attempt that returns is decided by the first collaborator that fails.\<close>

lemma suspend_thread_status:
  "suspend_thread env arg s = Returned r s' \<Longrightarrow>
   r = (if bootstrap16_acquire_status env \<noteq> ZX_OK then bootstrap16_acquire_status env
        else if get_table_status env \<noteq> AE_OK then ZX_ERR_BAD_STATE
        else if set_waking_vector_status env (bootstrap_ip env) \<noteq> AE_OK then ZX_ERR_BAD_STATE
        else if transition_s_state_status env (target_s_state arg) (sleep_type_a arg) (sleep_type_b arg) \<noteq> AE_OK
        then ZX_ERR_INTERNAL else ZX_OK)"
  by (auto simp add: suspend_thread_def prim_defs Let_def split: if_splits)

text \<open>The calls of an attempt that returns, once the bootstrap resource was acquired.\<close>

lemma suspend_thread_calls:
  "suspend_thread env arg s = Returned r s' \<Longrightarrow> bootstrap16_acquire_status env = ZX_OK \<Longrightarrow>
   calls_since s s' =
     (if get_table_status env \<noteq> AE_OK
      then [X86_bootstrap16_acquire, Acpi_get_table, X86_bootstrap16_release]
      else if set_waking_vector_status env (bootstrap_ip env) \<noteq> AE_OK
      then [X86_bootstrap16_acquire, Acpi_get_table, Acpi_set_waking_vector (bootstrap_ip env),
            X86_bootstrap16_release]
      else if transition_s_state_status env (target_s_state arg) (sleep_type_a arg) (sleep_type_b arg) \<noteq> AE_OK
      then [X86_bootstrap16_acquire, Acpi_get_table, Acpi_set_waking_vector (bootstrap_ip env),
            Arch_disable_ints, Platform_suspend, Arch_suspend,
            X86_acpi_transition_s_state Regs_local
              (target_s_state arg) (sleep_type_a arg) (sleep_type_b arg),
            Arch_enable_ints, Acpi_set_waking_vector 0, X86_bootstrap16_release]
      else [X86_bootstrap16_acquire, Acpi_get_table, Acpi_set_waking_vector (bootstrap_ip env),
            Arch_disable_ints, Platform_suspend, Arch_suspend,
            X86_acpi_transition_s_state Regs_local
              (target_s_state arg) (sleep_type_a arg) (sleep_type_b arg),
            Arch_ints_disabled True, Arch_resume, Platform_resume, Timer_thaw_percpu,
            Arch_ints_disabled True, Arch_enable_ints, Acpi_set_waking_vector 0,
            X86_bootstrap16_release])"
  by (auto simp add: suspend_thread_def prim_defs calls_since_def Let_def split: if_splits)

lemma suspend_thread_released:
  "suspend_thread env arg s = Returned r s' \<Longrightarrow> bootstrap16_acquire_status env = ZX_OK \<Longrightarrow>
   \<not> bootstrap_held s'"
  by (auto simp add: suspend_thread_def prim_defs Let_def split: if_splits)

lemma suspend_thread_vector:
  "suspend_thread env arg s = Returned r s' \<Longrightarrow> waking_vector s = 0 \<Longrightarrow>
   set_waking_vector_status env 0 = AE_OK \<Longrightarrow> waking_vector s' = 0"
  by (auto simp add: suspend_thread_def prim_defs Let_def split: if_splits)

lemma run_ok: "suspend_thread env_ok (request 3 1 2) machine_start = Returned ZX_OK machine_resumed"
  by (simp add: run_defs)

lemma env_ok_statuses:
  "bootstrap16_acquire_status env_ok = ZX_OK \<and> get_table_status env_ok = AE_OK
   \<and> set_waking_vector_status env_ok a = AE_OK \<and> transition_s_state_status env_ok t x y = AE_OK
   \<and> bootstrap_ip env_ok = 0x8000 \<and> powerctl_acpi_transition_s_state env_ok = 3
   \<and> online_mask env_ok = 1 \<and> thread_create_ok env_ok
   \<and> thread_resume_status env_ok = ZX_OK \<and> thread_join_status env_ok = ZX_OK"
  by (simp add: env_ok_def)

subsection \<open>The unwind of an attempt\<close>

text \<open>
  C1, as the code has it. Take an attempt of \<open>suspend_thread\<close> that returns after the
  bootstrap resource was acquired. Its calls are exactly one of four sequences, by the
  first collaborator that fails: the table lookup, the arming of the wake vector, the
  hardware transition, or none. On each of them acquire and release are called once
  each, the release is the last call, and the bootstrap resource ends released. The
  clearing call \<open>AcpiHwSetFirmwareWakingVector(facs, 0, 0)\<close> is made, once and just before
  the release, only where the arming call had succeeded; when the lookup or the arming
  call fails the unwind is the release alone, so the unwind is not the same on every
  exit and a failed arming call is matched by no clearing call. A wake vector that was
  clear at entry is clear at the end, provided the clearing call takes effect.
\<close>

theorem suspend_thread_unwind:
  assumes ret: "suspend_thread env arg s = Returned r s'"
      and acq: "bootstrap16_acquire_status env = ZX_OK"
  shows "calls_since s s' =
     (if get_table_status env \<noteq> AE_OK
      then [X86_bootstrap16_acquire, Acpi_get_table, X86_bootstrap16_release]
      else if set_waking_vector_status env (bootstrap_ip env) \<noteq> AE_OK
      then [X86_bootstrap16_acquire, Acpi_get_table, Acpi_set_waking_vector (bootstrap_ip env),
            X86_bootstrap16_release]
      else if transition_s_state_status env (target_s_state arg) (sleep_type_a arg) (sleep_type_b arg) \<noteq> AE_OK
      then [X86_bootstrap16_acquire, Acpi_get_table, Acpi_set_waking_vector (bootstrap_ip env),
            Arch_disable_ints, Platform_suspend, Arch_suspend,
            X86_acpi_transition_s_state Regs_local
              (target_s_state arg) (sleep_type_a arg) (sleep_type_b arg),
            Arch_enable_ints, Acpi_set_waking_vector 0, X86_bootstrap16_release]
      else [X86_bootstrap16_acquire, Acpi_get_table, Acpi_set_waking_vector (bootstrap_ip env),
            Arch_disable_ints, Platform_suspend, Arch_suspend,
            X86_acpi_transition_s_state Regs_local
              (target_s_state arg) (sleep_type_a arg) (sleep_type_b arg),
            Arch_ints_disabled True, Arch_resume, Platform_resume, Timer_thaw_percpu,
            Arch_ints_disabled True, Arch_enable_ints, Acpi_set_waking_vector 0,
            X86_bootstrap16_release])
    \<and> count_list (calls_since s s') X86_bootstrap16_acquire = 1
    \<and> count_list (calls_since s s') X86_bootstrap16_release = 1
    \<and> last (calls_since s s') = X86_bootstrap16_release
    \<and> \<not> bootstrap_held s'
    \<and> (bootstrap_ip env \<noteq> 0 \<longrightarrow>
          set_calls (calls_since s s') = (if get_table_status env = AE_OK then 1 else 0)
        \<and> clear_calls (calls_since s s') =
            (if get_table_status env = AE_OK
                \<and> set_waking_vector_status env (bootstrap_ip env) = AE_OK then 1 else 0))
    \<and> (waking_vector s = 0 \<and> set_waking_vector_status env 0 = AE_OK \<longrightarrow> waking_vector s' = 0)"
proof -
  note calls = suspend_thread_calls [OF ret acq]
  have "count_list (calls_since s s') X86_bootstrap16_acquire = 1"
    by (simp add: calls)
  moreover have "count_list (calls_since s s') X86_bootstrap16_release = 1"
    by (simp add: calls)
  moreover have "last (calls_since s s') = X86_bootstrap16_release"
    by (simp add: calls)
  moreover have "\<not> bootstrap_held s'"
    by (rule suspend_thread_released [OF ret acq])
  moreover have "bootstrap_ip env \<noteq> 0 \<longrightarrow>
          set_calls (calls_since s s') = (if get_table_status env = AE_OK then 1 else 0)
        \<and> clear_calls (calls_since s s') =
            (if get_table_status env = AE_OK
                \<and> set_waking_vector_status env (bootstrap_ip env) = AE_OK then 1 else 0)"
    by (simp add: calls set_calls_def clear_calls_def)
  moreover have "waking_vector s = 0 \<and> set_waking_vector_status env 0 = AE_OK
      \<longrightarrow> waking_vector s' = 0"
    using suspend_thread_vector [OF ret] by blast
  ultimately show ?thesis using calls by blast
qed

theorem suspend_thread_unwind_witness:
  "suspend_thread env_ok (request 3 1 2) machine_start = Returned ZX_OK machine_resumed
   \<and> bootstrap16_acquire_status env_ok = ZX_OK
   \<and> count_list (calls_since machine_start machine_resumed) X86_bootstrap16_acquire = 1
   \<and> count_list (calls_since machine_start machine_resumed) X86_bootstrap16_release = 1
   \<and> set_calls (calls_since machine_start machine_resumed) = 1
   \<and> clear_calls (calls_since machine_start machine_resumed) = 1
   \<and> \<not> bootstrap_held machine_resumed
   \<and> waking_vector machine_resumed = 0"
proof -
  have acq: "bootstrap16_acquire_status env_ok = ZX_OK"
    by (simp add: env_ok_def)
  have ip: "bootstrap_ip env_ok \<noteq> 0" "get_table_status env_ok = AE_OK"
    "set_waking_vector_status env_ok (bootstrap_ip env_ok) = AE_OK"
    "set_waking_vector_status env_ok 0 = AE_OK" "waking_vector machine_start = 0"
    by (simp_all add: env_ok_def machine_start_def)
  note unwind = suspend_thread_unwind [OF run_ok acq]
  from unwind have counts:
    "count_list (calls_since machine_start machine_resumed) X86_bootstrap16_acquire = 1"
    "count_list (calls_since machine_start machine_resumed) X86_bootstrap16_release = 1"
    "\<not> bootstrap_held machine_resumed"
    by blast+
  from unwind have "bootstrap_ip env_ok \<noteq> 0 \<longrightarrow>
      set_calls (calls_since machine_start machine_resumed) =
        (if get_table_status env_ok = AE_OK then 1 else 0)
      \<and> clear_calls (calls_since machine_start machine_resumed) =
        (if get_table_status env_ok = AE_OK
            \<and> set_waking_vector_status env_ok (bootstrap_ip env_ok) = AE_OK then 1 else 0)"
    by blast
  with ip have vector_calls:
    "set_calls (calls_since machine_start machine_resumed) = 1"
    "clear_calls (calls_since machine_start machine_resumed) = 1"
    by simp_all
  from unwind ip have "waking_vector machine_resumed = 0"
    by blast
  with counts vector_calls run_ok acq show ?thesis
    by blast
qed

text \<open>
  The claim as written fails where the arming call fails: the set primitive was called
  once, the clear primitive never, and the unwind has no clearing call.
\<close>

theorem suspend_thread_unwind_counterexample:
  "trace (machine_of (suspend_thread env_set_fails (request 3 1 2) machine_start)) =
     [X86_bootstrap16_acquire, Acpi_get_table, Acpi_set_waking_vector 0x8000,
      X86_bootstrap16_release]
   \<and> set_calls (trace (machine_of (suspend_thread env_set_fails (request 3 1 2) machine_start))) = 1
   \<and> clear_calls (trace (machine_of (suspend_thread env_set_fails (request 3 1 2) machine_start))) = 0"
  by (simp add: run_defs set_calls_def clear_calls_def)

subsection \<open>The order of restore and unwind\<close>




subsection \<open>Interrupts are enabled once\<close>




subsection \<open>The entry point: validation\<close>

text \<open>
  C4. With the recognised command and a target state of 0 or above 5, the entry point
  returns \<open>ZX_ERR_INVALID_ARGS\<close> and hands the machine back as it found it: the trace is
  unchanged, so no collaborator was called (no acquire, no wake vector, no thread), and
  the set of online units was not even read.
\<close>

theorem bad_s_state_rejected:
  assumes "cmd = powerctl_acpi_transition_s_state env"
      and "target_s_state arg = 0 \<or> 5 < target_s_state arg"
  shows "arch_system_powerctl env cmd arg s = Returned ZX_ERR_INVALID_ARGS s"
  using assms by (simp add: arch_system_powerctl_def)

theorem bad_s_state_rejected_witness:
  "(3::32 word) = powerctl_acpi_transition_s_state env_ok
   \<and> (5::8 word) < target_s_state (request 6 0 0)
   \<and> arch_system_powerctl env_ok 3 (request 6 0 0) machine_start =
       Returned ZX_ERR_INVALID_ARGS machine_start"
proof -
  have cmd: "(3::32 word) = powerctl_acpi_transition_s_state env_ok"
    by (simp add: env_ok_def)
  have bad: "(5::8 word) < target_s_state (request 6 0 0)"
    by (simp add: request_def)
  from bad_s_state_rejected [OF cmd disjI2 [OF bad], where s = machine_start] cmd bad
  show ?thesis by blast
qed

text \<open>
  C5. With the recognised command and a target state from 1 to 4, when the online mask
  reports more than one unit the entry point returns \<open>ZX_ERR_BAD_STATE\<close>, and the only
  call it has made is the query of the online mask: no thread was created and nothing
  was acquired.
\<close>

theorem too_many_cpus_rejected:
  assumes "cmd = powerctl_acpi_transition_s_state env"
      and "1 \<le> target_s_state arg" and "target_s_state arg \<le> 4"
      and "1 < online_count (online_mask env)"
  shows "arch_system_powerctl env cmd arg s =
           Returned ZX_ERR_BAD_STATE (collaborator env Mp_get_online_mask s)
       \<and> calls_since s (collaborator env Mp_get_online_mask s) = [Mp_get_online_mask]"
  using assms resumable_state [of "target_s_state arg"]
    several_online_not_cpu0 [of "online_mask env"]
  by (simp add: arch_system_powerctl_def mp_get_online_mask_def collaborator_def
      calls_since_def)

theorem too_many_cpus_rejected_witness:
  "online_count (online_mask (env_ok\<lparr>online_mask := 3\<rparr>)) = 2
   \<and> arch_system_powerctl (env_ok\<lparr>online_mask := 3\<rparr>) 3 (request 2 0 0) machine_start =
       Returned ZX_ERR_BAD_STATE (machine_start\<lparr>trace := [Mp_get_online_mask]\<rparr>)"
proof -
  have cmd: "(3::32 word) = powerctl_acpi_transition_s_state (env_ok\<lparr>online_mask := 3\<rparr>)"
    by (simp add: env_ok_def)
  have st: "1 \<le> target_s_state (request 2 0 0)" "target_s_state (request 2 0 0) \<le> 4"
    by (simp_all add: request_def)
  have cnt: "online_count (online_mask (env_ok\<lparr>online_mask := 3\<rparr>)) = 2"
    by (simp add: online_count_three)
  then have many: "1 < online_count (online_mask (env_ok\<lparr>online_mask := 3\<rparr>))"
    by simp
  have "collaborator (env_ok\<lparr>online_mask := 3\<rparr>) Mp_get_online_mask machine_start =
      machine_start\<lparr>trace := [Mp_get_online_mask]\<rparr>"
    by (simp add: collaborator_def env_ok_def machine_start_def)
  with too_many_cpus_rejected [OF cmd st many, where s = machine_start] cnt
  show ?thesis by simp
qed

text \<open>
  C9. For a target state from 1 to 4 the check compares the online mask with the mask of
  unit 0. A request made while exactly one unit is online, and that unit is not unit 0,
  is rejected with \<open>ZX_ERR_BAD_STATE\<close>.
\<close>

theorem cpu0_must_be_alone:
  assumes "cmd = powerctl_acpi_transition_s_state env"
      and "1 \<le> target_s_state arg" and "target_s_state arg \<le> 4"
      and "online_count (online_mask env) = 1" and "\<not> bit (online_mask env) 0"
  shows "arch_system_powerctl env cmd arg s =
           Returned ZX_ERR_BAD_STATE (collaborator env Mp_get_online_mask s)"
  using assms resumable_state [of "target_s_state arg"]
    cpu0_offline_not_cpu0 [of "online_mask env"]
  by (simp add: arch_system_powerctl_def mp_get_online_mask_def)

theorem cpu0_must_be_alone_witness:
  "online_count (online_mask (env_ok\<lparr>online_mask := 2\<rparr>)) = 1
   \<and> \<not> bit (online_mask (env_ok\<lparr>online_mask := 2\<rparr>)) 0
   \<and> arch_system_powerctl (env_ok\<lparr>online_mask := 2\<rparr>) 3 (request 3 1 2) machine_start =
       Returned ZX_ERR_BAD_STATE (machine_start\<lparr>trace := [Mp_get_online_mask]\<rparr>)"
proof -
  have cmd: "(3::32 word) = powerctl_acpi_transition_s_state (env_ok\<lparr>online_mask := 2\<rparr>)"
    by (simp add: env_ok_def)
  have st: "1 \<le> target_s_state (request 3 1 2)" "target_s_state (request 3 1 2) \<le> 4"
    by (simp_all add: request_def)
  have one: "online_count (online_mask (env_ok\<lparr>online_mask := 2\<rparr>)) = 1"
    by (simp add: online_count_two)
  have off: "\<not> bit (online_mask (env_ok\<lparr>online_mask := 2\<rparr>)) 0"
    by simp
  have "collaborator (env_ok\<lparr>online_mask := 2\<rparr>) Mp_get_online_mask machine_start =
      machine_start\<lparr>trace := [Mp_get_online_mask]\<rparr>"
    by (simp add: collaborator_def env_ok_def machine_start_def)
  with cpu0_must_be_alone [OF cmd st one off, where s = machine_start] one off
  show ?thesis by simp
qed

subsection \<open>The entry point: shutdown\<close>

text \<open>
  C6. For target state 5 with the recognised command the check of the online units is
  skipped: the online mask is not read, whatever it holds the entry point does the same,
  it is not rejected with \<open>ZX_ERR_BAD_STATE\<close>, and it calls the hardware transition.
\<close>

theorem shutdown_skips_cpu_check:
  assumes "cmd = powerctl_acpi_transition_s_state env" and "target_s_state arg = 5"
  shows "arch_system_powerctl (env\<lparr>online_mask := m\<rparr>) cmd arg s =
           arch_system_powerctl env cmd arg s
       \<and> (\<exists>r s'. arch_system_powerctl env cmd arg s = Returned r s'
            \<and> r \<noteq> ZX_ERR_BAD_STATE
            \<and> Mp_get_online_mask \<notin> set (calls_since s s')
            \<and> X86_acpi_transition_s_state Regs_local 5 (sleep_type_a arg) (sleep_type_b arg)
                 \<in> set (calls_since s s'))"
  using assms by (simp add: arch_system_powerctl_def prim_defs Let_def calls_since_def)

theorem shutdown_skips_cpu_check_witness:
  "online_count 3 = 2
   \<and> arch_system_powerctl (env_ok\<lparr>online_mask := 3\<rparr>) 3 (request 5 0 0) machine_start =
       arch_system_powerctl env_ok 3 (request 5 0 0) machine_start
   \<and> (\<exists>r s'. arch_system_powerctl env_ok 3 (request 5 0 0) machine_start = Returned r s'
         \<and> r \<noteq> ZX_ERR_BAD_STATE
         \<and> X86_acpi_transition_s_state Regs_local 5 0 0 \<in> set (calls_since machine_start s'))"
proof -
  have cmd: "(3::32 word) = powerctl_acpi_transition_s_state env_ok"
    by (simp add: env_ok_def)
  have st: "target_s_state (request 5 0 0) = 5"
    by (simp add: request_def)
  have ab: "sleep_type_a (request 5 0 0) = 0" "sleep_type_b (request 5 0 0) = 0"
    by (simp_all add: request_def)
  from shutdown_skips_cpu_check [OF cmd st, where m = 3 and s = machine_start] online_count_three
  show ?thesis unfolding ab by blast
qed

text \<open>
  C3, as the code has it. On the path for target state 5 the entry point disables
  interrupts, calls the hardware transition directly (no thread, no bootstrap resource,
  no wake vector) with the address of a local register-capture structure, and enables
  interrupts again whenever the call returns, whatever its status. A firmware failure
  is returned as \<open>ZX_ERR_INTERNAL\<close>; a return with \<open>AE_OK\<close> is returned as \<open>ZX_OK\<close>.
\<close>

theorem shutdown_path:
  assumes "cmd = powerctl_acpi_transition_s_state env" and "target_s_state arg = 5"
  shows "arch_system_powerctl env cmd arg s =
     Returned
       (if transition_s_state_status env 5 (sleep_type_a arg) (sleep_type_b arg) = AE_OK
        then ZX_OK else ZX_ERR_INTERNAL)
       (s\<lparr>ints_enabled := True,
          trace := trace s @
            [Arch_disable_ints,
             X86_acpi_transition_s_state Regs_local 5 (sleep_type_a arg) (sleep_type_b arg),
             Arch_enable_ints]\<rparr>)"
  using assms by (simp add: arch_system_powerctl_def prim_defs Let_def)

theorem shutdown_path_witness:
  "(3::32 word) = powerctl_acpi_transition_s_state env_rejects
   \<and> target_s_state (request 5 0 0) = 5
   \<and> arch_system_powerctl env_rejects 3 (request 5 0 0) machine_start =
       Returned ZX_ERR_INTERNAL
         (machine_start\<lparr>ints_enabled := True,
            trace := [Arch_disable_ints, X86_acpi_transition_s_state Regs_local 5 0 0,
                      Arch_enable_ints]\<rparr>)"
proof -
  have cmd: "(3::32 word) = powerctl_acpi_transition_s_state env_rejects"
    by (simp add: env_rejects_def env_ok_def)
  have st: "target_s_state (request 5 0 0) = 5"
    by (simp add: request_def)
  have "arch_system_powerctl env_rejects 3 (request 5 0 0) machine_start =
       Returned ZX_ERR_INTERNAL
         (machine_start\<lparr>ints_enabled := True,
            trace := [Arch_disable_ints, X86_acpi_transition_s_state Regs_local 5 0 0,
                      Arch_enable_ints]\<rparr>)"
    using shutdown_path [OF cmd st, where s = machine_start]
    by (simp add: env_rejects_def request_def machine_start_def)
  with cmd st show ?thesis by blast
qed

text \<open>
  The claim as written fails where the hardware transition returns \<open>AE_OK\<close> for target
  state 5: the entry point returns \<open>ZX_OK\<close>, not an internal error; it has enabled
  interrupts although the firmware call did not fail; and the register-capture pointer
  it passed is not null.
\<close>

theorem shutdown_path_counterexample:
  "arch_system_powerctl env_ok 3 (request 5 0 0) machine_start =
     Returned ZX_OK
       \<lparr>ints_enabled = True, waking_vector = 0, bootstrap_held = False,
        registers_ptr = Regs_null,
        trace = [Arch_disable_ints, X86_acpi_transition_s_state Regs_local 5 0 0,
                 Arch_enable_ints]\<rparr>
   \<and> transition_s_state_status env_ok 5 0 0 = AE_OK"
  by (simp add: run_defs)

subsection \<open>The entry point: the suspend thread\<close>

text \<open>
  C7. When the hardware transition answers a status other than \<open>AE_OK\<close> on the resumable
  path, the attempt enables interrupts, runs both cleanups (the clearing call, then the
  release) and returns \<open>ZX_ERR_INTERNAL\<close>: the bootstrap resource ends released and the
  wake vector cleared (0 where the clearing call, whose status the code ignores, takes
  effect). The entry point, for a valid resumable request whose thread is created,
  started and joined as the two \<open>ASSERT\<close>s require, has made exactly the calls below,
  the attempt's between \<open>thread_resume\<close> and \<open>thread_join\<close>, and returns that
  \<open>ZX_ERR_INTERNAL\<close> to its caller.
\<close>

theorem firmware_rejection:
  assumes "bootstrap16_acquire_status env = ZX_OK" and "get_table_status env = AE_OK"
      and "set_waking_vector_status env (bootstrap_ip env) = AE_OK"
      and "transition_s_state_status env (target_s_state arg) (sleep_type_a arg) (sleep_type_b arg) \<noteq> AE_OK"
  shows "suspend_thread env arg s =
           Returned ZX_ERR_INTERNAL
          (s\<lparr>ints_enabled := ints_after env X86_bootstrap16_release (ints_after env (Acpi_set_waking_vector 0) True),
             waking_vector := (if set_waking_vector_status env 0 = AE_OK then 0 else bootstrap_ip env),
             bootstrap_held := False, registers_ptr := Regs_local,
             trace := trace s @
                 [X86_bootstrap16_acquire, Acpi_get_table,
                  Acpi_set_waking_vector (bootstrap_ip env),
                  Arch_disable_ints, Platform_suspend, Arch_suspend,
                  X86_acpi_transition_s_state Regs_local
                    (target_s_state arg) (sleep_type_a arg) (sleep_type_b arg),
                  Arch_enable_ints, Acpi_set_waking_vector 0, X86_bootstrap16_release]\<rparr>)
       \<and> (cmd = powerctl_acpi_transition_s_state env
            \<and> 1 \<le> target_s_state arg \<and> target_s_state arg \<le> 4
            \<and> online_mask env = cpu_num_to_mask 0 \<and> thread_create_ok env
            \<and> thread_resume_status env = ZX_OK \<and> thread_join_status env = ZX_OK \<longrightarrow>
          arch_system_powerctl env cmd arg s =
            Returned ZX_ERR_INTERNAL
          (s\<lparr>ints_enabled := ints_after env (Thread_join ZX_TIME_INFINITE)
                 (ints_after env X86_bootstrap16_release (ints_after env (Acpi_set_waking_vector 0) True)),
             waking_vector := (if set_waking_vector_status env 0 = AE_OK then 0 else bootstrap_ip env),
             bootstrap_held := False, registers_ptr := Regs_local,
             trace := trace s @
                 [Mp_get_online_mask, Thread_create, Thread_resume,
                  X86_bootstrap16_acquire, Acpi_get_table,
                  Acpi_set_waking_vector (bootstrap_ip env),
                  Arch_disable_ints, Platform_suspend, Arch_suspend,
                  X86_acpi_transition_s_state Regs_local
                    (target_s_state arg) (sleep_type_a arg) (sleep_type_b arg),
                  Arch_enable_ints, Acpi_set_waking_vector 0, X86_bootstrap16_release,
                  Thread_join ZX_TIME_INFINITE]\<rparr>))"
proof (intro conjI impI)
  show "suspend_thread env arg s =
           Returned ZX_ERR_INTERNAL
          (s\<lparr>ints_enabled := ints_after env X86_bootstrap16_release (ints_after env (Acpi_set_waking_vector 0) True),
             waking_vector := (if set_waking_vector_status env 0 = AE_OK then 0 else bootstrap_ip env),
             bootstrap_held := False, registers_ptr := Regs_local,
             trace := trace s @
                 [X86_bootstrap16_acquire, Acpi_get_table,
                  Acpi_set_waking_vector (bootstrap_ip env),
                  Arch_disable_ints, Platform_suspend, Arch_suspend,
                  X86_acpi_transition_s_state Regs_local
                    (target_s_state arg) (sleep_type_a arg) (sleep_type_b arg),
                  Arch_enable_ints, Acpi_set_waking_vector 0, X86_bootstrap16_release]\<rparr>)"
    using assms by (simp add: suspend_thread_def prim_defs Let_def)
next
  assume "cmd = powerctl_acpi_transition_s_state env
            \<and> 1 \<le> target_s_state arg \<and> target_s_state arg \<le> 4
            \<and> online_mask env = cpu_num_to_mask 0 \<and> thread_create_ok env
            \<and> thread_resume_status env = ZX_OK \<and> thread_join_status env = ZX_OK"
  with assms resumable_state [of "target_s_state arg"]
  show "arch_system_powerctl env cmd arg s =
            Returned ZX_ERR_INTERNAL
          (s\<lparr>ints_enabled := ints_after env (Thread_join ZX_TIME_INFINITE)
                 (ints_after env X86_bootstrap16_release (ints_after env (Acpi_set_waking_vector 0) True)),
             waking_vector := (if set_waking_vector_status env 0 = AE_OK then 0 else bootstrap_ip env),
             bootstrap_held := False, registers_ptr := Regs_local,
             trace := trace s @
                 [Mp_get_online_mask, Thread_create, Thread_resume,
                  X86_bootstrap16_acquire, Acpi_get_table,
                  Acpi_set_waking_vector (bootstrap_ip env),
                  Arch_disable_ints, Platform_suspend, Arch_suspend,
                  X86_acpi_transition_s_state Regs_local
                    (target_s_state arg) (sleep_type_a arg) (sleep_type_b arg),
                  Arch_enable_ints, Acpi_set_waking_vector 0, X86_bootstrap16_release,
                  Thread_join ZX_TIME_INFINITE]\<rparr>)"
    by (simp add: arch_system_powerctl_def suspend_thread_def prim_defs Let_def)
qed

theorem firmware_rejection_witness:
  "transition_s_state_status env_rejects 3 1 2 = AE_FAILURE 1
   \<and> suspend_thread env_rejects (request 3 1 2) machine_start =
       Returned ZX_ERR_INTERNAL
         \<lparr>ints_enabled = True, waking_vector = 0, bootstrap_held = False,
          registers_ptr = Regs_local,
          trace = [X86_bootstrap16_acquire, Acpi_get_table, Acpi_set_waking_vector 0x8000,
                   Arch_disable_ints, Platform_suspend, Arch_suspend,
                   X86_acpi_transition_s_state Regs_local 3 1 2,
                   Arch_enable_ints, Acpi_set_waking_vector 0, X86_bootstrap16_release]\<rparr>
   \<and> arch_system_powerctl env_rejects 3 (request 3 1 2) machine_start =
       Returned ZX_ERR_INTERNAL
         \<lparr>ints_enabled = True, waking_vector = 0, bootstrap_held = False,
          registers_ptr = Regs_local,
          trace = [Mp_get_online_mask, Thread_create, Thread_resume,
                   X86_bootstrap16_acquire, Acpi_get_table, Acpi_set_waking_vector 0x8000,
                   Arch_disable_ints, Platform_suspend, Arch_suspend,
                   X86_acpi_transition_s_state Regs_local 3 1 2,
                   Arch_enable_ints, Acpi_set_waking_vector 0, X86_bootstrap16_release,
                   Thread_join ZX_TIME_INFINITE]\<rparr>"
proof -
  have st: "bootstrap16_acquire_status env_rejects = ZX_OK"
    "get_table_status env_rejects = AE_OK"
    "set_waking_vector_status env_rejects (bootstrap_ip env_rejects) = AE_OK"
    by (simp_all add: env_rejects_def env_ok_def)
  have rej: "transition_s_state_status env_rejects (target_s_state (request 3 1 2))
      (sleep_type_a (request 3 1 2)) (sleep_type_b (request 3 1 2)) \<noteq> AE_OK"
    by (simp add: env_rejects_def)
  have status: "transition_s_state_status env_rejects 3 1 2 = AE_FAILURE 1"
    by (simp add: env_rejects_def)
  have entry: "(3::32 word) = powerctl_acpi_transition_s_state env_rejects
      \<and> 1 \<le> target_s_state (request 3 1 2) \<and> target_s_state (request 3 1 2) \<le> 4
      \<and> online_mask env_rejects = cpu_num_to_mask 0 \<and> thread_create_ok env_rejects
      \<and> thread_resume_status env_rejects = ZX_OK \<and> thread_join_status env_rejects = ZX_OK"
    by (simp add: env_rejects_def env_ok_def request_def cpu_num_to_mask_def)
  note rejection = firmware_rejection [OF st rej, where cmd = 3 and s = machine_start]
  have attempt: "suspend_thread env_rejects (request 3 1 2) machine_start =
       Returned ZX_ERR_INTERNAL
         \<lparr>ints_enabled = True, waking_vector = 0, bootstrap_held = False,
          registers_ptr = Regs_local,
          trace = [X86_bootstrap16_acquire, Acpi_get_table, Acpi_set_waking_vector 0x8000,
                   Arch_disable_ints, Platform_suspend, Arch_suspend,
                   X86_acpi_transition_s_state Regs_local 3 1 2,
                   Arch_enable_ints, Acpi_set_waking_vector 0, X86_bootstrap16_release]\<rparr>"
    using conjunct1 [OF rejection]
    by (simp add: env_rejects_def env_ok_def request_def machine_start_def)
  have "arch_system_powerctl env_rejects 3 (request 3 1 2) machine_start =
       Returned ZX_ERR_INTERNAL
         \<lparr>ints_enabled = True, waking_vector = 0, bootstrap_held = False,
          registers_ptr = Regs_local,
          trace = [Mp_get_online_mask, Thread_create, Thread_resume,
                   X86_bootstrap16_acquire, Acpi_get_table, Acpi_set_waking_vector 0x8000,
                   Arch_disable_ints, Platform_suspend, Arch_suspend,
                   X86_acpi_transition_s_state Regs_local 3 1 2,
                   Arch_enable_ints, Acpi_set_waking_vector 0, X86_bootstrap16_release,
                   Thread_join ZX_TIME_INFINITE]\<rparr>"
    using mp [OF conjunct2 [OF rejection] entry]
    by (simp add: env_rejects_def env_ok_def request_def machine_start_def)
  with status attempt show ?thesis by blast
qed

text \<open>
  C8. For a valid resumable request (recognised command, target state from 1 to 4, unit
  0 alone online): if the thread cannot be created the entry point returns
  \<open>ZX_ERR_NO_MEMORY\<close>, having made no call but the query of the online mask and the
  failed creation, so that no part of \<open>suspend_thread\<close> has run; otherwise, the thread
  started and joined as the two \<open>ASSERT\<close>s require, it joins with \<open>ZX_TIME_INFINITE\<close> and
  returns whatever status \<open>suspend_thread\<close> returned.
\<close>

theorem thread_outcome_propagated:
  assumes "cmd = powerctl_acpi_transition_s_state env"
      and "1 \<le> target_s_state arg" and "target_s_state arg \<le> 4"
      and "online_mask env = cpu_num_to_mask 0"
  shows "(\<not> thread_create_ok env \<longrightarrow>
            arch_system_powerctl env cmd arg s =
              Returned ZX_ERR_NO_MEMORY
                (collaborator env Thread_create (collaborator env Mp_get_online_mask s))
            \<and> calls_since s (collaborator env Thread_create (collaborator env Mp_get_online_mask s))
                = [Mp_get_online_mask, Thread_create])
       \<and> (thread_create_ok env \<and> thread_resume_status env = ZX_OK
            \<and> thread_join_status env = ZX_OK \<longrightarrow>
          (\<forall>r t. suspend_thread env arg
                    (collaborator env Thread_resume
                      (collaborator env Thread_create (collaborator env Mp_get_online_mask s)))
                  = Returned r t \<longrightarrow>
                arch_system_powerctl env cmd arg s =
                  Returned r (collaborator env (Thread_join ZX_TIME_INFINITE) t)))"
  using assms resumable_state [of "target_s_state arg"]
  by (auto simp add: arch_system_powerctl_def mp_get_online_mask_def thread_create_def
      thread_resume_def thread_join_def collaborator_def calls_since_def)

theorem thread_outcome_propagated_witness:
  "arch_system_powerctl (env_ok\<lparr>thread_create_ok := False\<rparr>) 3 (request 3 1 2) machine_start =
     Returned ZX_ERR_NO_MEMORY (machine_start\<lparr>trace := [Mp_get_online_mask, Thread_create]\<rparr>)
   \<and> suspend_thread env_ok (request 3 1 2)
       (machine_start\<lparr>trace := [Mp_get_online_mask, Thread_create, Thread_resume]\<rparr>) =
     Returned ZX_OK
       (machine_resumed\<lparr>trace := [Mp_get_online_mask, Thread_create, Thread_resume]
          @ trace machine_resumed\<rparr>)
   \<and> arch_system_powerctl env_ok 3 (request 3 1 2) machine_start =
     Returned ZX_OK
       (machine_resumed\<lparr>trace := [Mp_get_online_mask, Thread_create, Thread_resume]
          @ trace machine_resumed @ [Thread_join ZX_TIME_INFINITE]\<rparr>)"
proof -
  have st: "1 \<le> target_s_state (request 3 1 2)" "target_s_state (request 3 1 2) \<le> 4"
    by (simp_all add: request_def)
  have cmd0: "(3::32 word) = powerctl_acpi_transition_s_state (env_ok\<lparr>thread_create_ok := False\<rparr>)"
    and cpu0: "online_mask (env_ok\<lparr>thread_create_ok := False\<rparr>) = cpu_num_to_mask 0"
    and none: "\<not> thread_create_ok (env_ok\<lparr>thread_create_ok := False\<rparr>)"
    by (simp_all add: env_ok_def cpu_num_to_mask_def)
  have cmd1: "(3::32 word) = powerctl_acpi_transition_s_state env_ok"
    and cpu1: "online_mask env_ok = cpu_num_to_mask 0"
    and some: "thread_create_ok env_ok" "thread_resume_status env_ok = ZX_OK"
      "thread_join_status env_ok = ZX_OK"
    by (simp_all add: env_ok_def cpu_num_to_mask_def)
  have body: "suspend_thread env_ok (request 3 1 2)
       (machine_start\<lparr>trace := [Mp_get_online_mask, Thread_create, Thread_resume]\<rparr>) =
     Returned ZX_OK
       (machine_resumed\<lparr>trace := [Mp_get_online_mask, Thread_create, Thread_resume]
          @ trace machine_resumed\<rparr>)"
    by (simp add: run_defs)
  have started: "collaborator env_ok Thread_resume
       (collaborator env_ok Thread_create (collaborator env_ok Mp_get_online_mask machine_start)) =
     machine_start\<lparr>trace := [Mp_get_online_mask, Thread_create, Thread_resume]\<rparr>"
    by (simp add: collaborator_def env_ok_def machine_start_def)
  from thread_outcome_propagated [OF cmd0 st cpu0, where s = machine_start] none
  have "arch_system_powerctl (env_ok\<lparr>thread_create_ok := False\<rparr>) 3 (request 3 1 2) machine_start =
     Returned ZX_ERR_NO_MEMORY
       (collaborator (env_ok\<lparr>thread_create_ok := False\<rparr>) Thread_create
         (collaborator (env_ok\<lparr>thread_create_ok := False\<rparr>) Mp_get_online_mask machine_start))"
    by blast
  then have no_thread:
    "arch_system_powerctl (env_ok\<lparr>thread_create_ok := False\<rparr>) 3 (request 3 1 2) machine_start =
     Returned ZX_ERR_NO_MEMORY (machine_start\<lparr>trace := [Mp_get_online_mask, Thread_create]\<rparr>)"
    by (simp add: collaborator_def env_ok_def machine_start_def)
  from thread_outcome_propagated [OF cmd1 st cpu1, where s = machine_start] some body started
  have "arch_system_powerctl env_ok 3 (request 3 1 2) machine_start =
     Returned ZX_OK
       (collaborator env_ok (Thread_join ZX_TIME_INFINITE)
         (machine_resumed\<lparr>trace := [Mp_get_online_mask, Thread_create, Thread_resume]
            @ trace machine_resumed\<rparr>))"
    by simp
  then have joined: "arch_system_powerctl env_ok 3 (request 3 1 2) machine_start =
     Returned ZX_OK
       (machine_resumed\<lparr>trace := [Mp_get_online_mask, Thread_create, Thread_resume]
          @ trace machine_resumed @ [Thread_join ZX_TIME_INFINITE]\<rparr>)"
    by (simp add: collaborator_def env_ok_def machine_resumed_def)
  from no_thread body joined show ?thesis by blast
qed

end
